theory Spec2Isabelle
  imports Main "HOL-Library.Word"
begin

section \<open>The epoch overlay element (ext/pango/gstepochoverlay.c)\<close>

text \<open>
  The element derives from the base text overlay. Its own code is the text callback
  \<open>gst_epoch_overlay_get_text\<close>, the class initialiser, the instance initialiser and the
  two property handlers. Everything they call outside the file (the C library, GLib, Pango)
  is modelled by the few functions below, each next to the call it stands for.
\<close>

subsection \<open>Data\<close>

text \<open>
  \<open>struct timeval\<close> on an LP64 platform: \<open>time_t\<close> and \<open>suseconds_t\<close> are signed 64-bit
  integers. A field holds the 64 bits; \<open>sint\<close> reads the signed value. Converting such a
  value to \<open>unsigned long long\<close> keeps the bits.
\<close>

record timeval =
  tv_sec :: "64 word"
  tv_usec :: "64 word"

text \<open>A mutex is free or held; there is one thread of control in the model.\<close>

datatype GMutex = Mutex_free | Mutex_held

text \<open>
  The alignment enumerations of the base class header, and the part of the instance
  structure this element touches. The record scheme's extension stands for every other
  field of the base class instance.
\<close>

datatype GstBaseTextOverlayVAlign =
  VALIGN_BASELINE | VALIGN_BOTTOM | VALIGN_TOP | VALIGN_POS | VALIGN_CENTER

datatype GstBaseTextOverlayHAlign =
  HALIGN_LEFT | HALIGN_CENTER | HALIGN_RIGHT | HALIGN_UNUSED | HALIGN_POS

record GstObject =
  lock :: GMutex

record GstBaseTextOverlay = GstObject +
  valign :: GstBaseTextOverlayVAlign
  halign :: GstBaseTextOverlayHAlign
  need_render :: bool

text \<open>\<open>struct _GstEpochOverlay { GstBaseTextOverlay textoverlay; }\<close>\<close>

record 'a GstEpochOverlay =
  textoverlay :: "'a GstBaseTextOverlay_scheme"

text \<open>
  Strings that \<open>g_strdup\<close> allocates live in a heap of blocks. Address 0 is \<open>NULL\<close>; block
  number \<open>i\<close> of the list has address \<open>i + 1\<close>.
\<close>

type_synonym addr = nat
type_synonym heap = "string list"

definition allocated :: "heap \<Rightarrow> addr \<Rightarrow> bool" where
  "allocated h p = (0 < p \<and> p \<le> length h)"

definition deref :: "heap \<Rightarrow> addr \<Rightarrow> string option" where
  "deref h p = (if allocated h p then Some (h ! (p - 1)) else None)"

text \<open>
  \<open>g_strdup (str)\<close> for a non-\<open>NULL\<close> argument: a new block holding a copy of the text; the
  blocks that exist stay as they are.
\<close>

definition g_strdup :: "heap \<Rightarrow> string \<Rightarrow> addr \<times> heap" where
  "g_strdup h str = (Suc (length h), h @ [str])"

subsection \<open>Formatting\<close>

text \<open>
  \<open>sprintf (buf, "%" PRIu64, micro)\<close>: the decimal digits of an unsigned 64-bit value,
  most significant first.
\<close>

definition digit_char :: "nat \<Rightarrow> char" where
  "digit_char d = ''0123456789'' ! d"

fun utoa :: "nat \<Rightarrow> string" where
  "utoa n = (if n < 10 then [digit_char n] else utoa (n div 10) @ [digit_char (n mod 10)])"

declare utoa.simps [simp del]

definition format_PRIu64 :: "64 word \<Rightarrow> string" where
  "format_PRIu64 w = utoa (unat w)"

text \<open>
  \<open>sprintf\<close> into \<open>gchar buf[256]\<close>: the text and its terminating NUL must fit, or the call
  writes past the buffer (\<open>None\<close>).
\<close>

definition sprintf :: "nat \<Rightarrow> string \<Rightarrow> string option" where
  "sprintf cap s = (if length s < cap then Some s else None)"

subsection \<open>The text callback\<close>

text \<open>
  \<open>gettimeofday (&tp, NULL)\<close> is the environment's answer: the returned \<open>int\<close> and the
  contents of \<open>tp\<close> after the call (indeterminate when the call fails). The frame argument
  is never read.
\<close>

definition gst_epoch_overlay_get_text ::
  "32 word \<times> timeval \<Rightarrow> heap \<Rightarrow> 'a GstBaseTextOverlay_scheme \<Rightarrow> 'f
    \<Rightarrow> (addr \<times> 'a GstBaseTextOverlay_scheme \<times> heap) option" where
  "gst_epoch_overlay_get_text clock h overlay video_frame =
    (let (ret, tp) = clock;
         buf = (if ret = 0 then
                  (let micro = tv_sec tp;
                       micro = micro * 1000000 + tv_usec tp
                   in sprintf 256 (format_PRIu64 micro))
                else sprintf 256 ''gettimeofday failed'')
     in case buf of
          None \<Rightarrow> None
        | Some text \<Rightarrow>
            (let overlay = overlay\<lparr>need_render := True\<rparr>;
                 (p, h) = g_strdup h text
             in Some (p, overlay, h)))"

text \<open>The text behind the returned pointer, read in the heap the call leaves.\<close>

definition returned_text ::
  "(addr \<times> 'a GstBaseTextOverlay_scheme \<times> heap) option \<Rightarrow> string option" where
  "returned_text r = (case r of None \<Rightarrow> None | Some (p, overlay, h) \<Rightarrow> deref h p)"

subsection \<open>Reading a numeral back\<close>

text \<open>
  The specification's words: a string matching \<open>^[0-9]+$\<close>, and the number such a string
  denotes.
\<close>

definition is_digit :: "char \<Rightarrow> bool" where
  "is_digit c = (c \<in> set ''0123456789'')"

definition matches_digits :: "string \<Rightarrow> bool" where
  "matches_digits s = (s \<noteq> [] \<and> list_all is_digit s)"

definition digit_val :: "char \<Rightarrow> nat" where
  "digit_val c = of_char c - 48"

definition atou :: "string \<Rightarrow> nat" where
  "atou s = foldl (\<lambda>a c. 10 * a + digit_val c) 0 s"

subsection \<open>Pango objects\<close>

text \<open>
  The Pango types the class initialiser uses, with the enumerators of Pango's headers. A
  font description remembers in \<open>mask_fields\<close> which of its fields were set explicitly.
  \<open>PANGO_SCALE\<close> is the number of Pango units in one point.
\<close>

datatype PangoLanguage = Language_tag string

datatype PangoDirection =
  PANGO_DIRECTION_LTR | PANGO_DIRECTION_RTL | PANGO_DIRECTION_TTB_LTR
  | PANGO_DIRECTION_TTB_RTL | PANGO_DIRECTION_WEAK_LTR | PANGO_DIRECTION_WEAK_RTL
  | PANGO_DIRECTION_NEUTRAL

datatype PangoStyle = PANGO_STYLE_NORMAL | PANGO_STYLE_OBLIQUE | PANGO_STYLE_ITALIC

datatype PangoVariant = PANGO_VARIANT_NORMAL | PANGO_VARIANT_SMALL_CAPS

datatype PangoWeight =
  PANGO_WEIGHT_THIN | PANGO_WEIGHT_ULTRALIGHT | PANGO_WEIGHT_LIGHT | PANGO_WEIGHT_BOOK
  | PANGO_WEIGHT_NORMAL | PANGO_WEIGHT_MEDIUM | PANGO_WEIGHT_SEMIBOLD | PANGO_WEIGHT_BOLD
  | PANGO_WEIGHT_ULTRABOLD | PANGO_WEIGHT_HEAVY | PANGO_WEIGHT_ULTRAHEAVY

datatype PangoStretch =
  PANGO_STRETCH_ULTRA_CONDENSED | PANGO_STRETCH_EXTRA_CONDENSED | PANGO_STRETCH_CONDENSED
  | PANGO_STRETCH_SEMI_CONDENSED | PANGO_STRETCH_NORMAL | PANGO_STRETCH_SEMI_EXPANDED
  | PANGO_STRETCH_EXPANDED | PANGO_STRETCH_EXTRA_EXPANDED | PANGO_STRETCH_ULTRA_EXPANDED

datatype PangoFontMask =
  PANGO_FONT_MASK_FAMILY | PANGO_FONT_MASK_STYLE | PANGO_FONT_MASK_VARIANT
  | PANGO_FONT_MASK_WEIGHT | PANGO_FONT_MASK_STRETCH | PANGO_FONT_MASK_SIZE
  | PANGO_FONT_MASK_GRAVITY

record PangoFontDescription =
  family :: "string option"
  style :: PangoStyle
  variant :: PangoVariant
  weight :: PangoWeight
  stretch :: PangoStretch
  size_units :: int
  mask_fields :: "PangoFontMask set"

record PangoContext =
  language :: PangoLanguage
  base_dir :: PangoDirection
  font_desc :: PangoFontDescription

definition PANGO_SCALE :: int where
  "PANGO_SCALE = 1024"

definition pango_language_from_string :: "string \<Rightarrow> PangoLanguage" where
  "pango_language_from_string s = Language_tag s"

definition pango_font_description_new :: PangoFontDescription where
  "pango_font_description_new =
    \<lparr>family = None, style = PANGO_STYLE_NORMAL, variant = PANGO_VARIANT_NORMAL,
     weight = PANGO_WEIGHT_NORMAL, stretch = PANGO_STRETCH_NORMAL, size_units = 0,
     mask_fields = {}\<rparr>"

definition pango_font_description_set_family_static ::
  "PangoFontDescription \<Rightarrow> string \<Rightarrow> PangoFontDescription" where
  "pango_font_description_set_family_static desc fam =
    desc\<lparr>family := Some fam, mask_fields := insert PANGO_FONT_MASK_FAMILY (mask_fields desc)\<rparr>"

definition pango_font_description_set_style ::
  "PangoFontDescription \<Rightarrow> PangoStyle \<Rightarrow> PangoFontDescription" where
  "pango_font_description_set_style desc st =
    desc\<lparr>style := st, mask_fields := insert PANGO_FONT_MASK_STYLE (mask_fields desc)\<rparr>"

definition pango_font_description_set_variant ::
  "PangoFontDescription \<Rightarrow> PangoVariant \<Rightarrow> PangoFontDescription" where
  "pango_font_description_set_variant desc v =
    desc\<lparr>variant := v, mask_fields := insert PANGO_FONT_MASK_VARIANT (mask_fields desc)\<rparr>"

definition pango_font_description_set_weight ::
  "PangoFontDescription \<Rightarrow> PangoWeight \<Rightarrow> PangoFontDescription" where
  "pango_font_description_set_weight desc w =
    desc\<lparr>weight := w, mask_fields := insert PANGO_FONT_MASK_WEIGHT (mask_fields desc)\<rparr>"

definition pango_font_description_set_stretch ::
  "PangoFontDescription \<Rightarrow> PangoStretch \<Rightarrow> PangoFontDescription" where
  "pango_font_description_set_stretch desc st =
    desc\<lparr>stretch := st, mask_fields := insert PANGO_FONT_MASK_STRETCH (mask_fields desc)\<rparr>"

definition pango_font_description_set_size ::
  "PangoFontDescription \<Rightarrow> int \<Rightarrow> PangoFontDescription" where
  "pango_font_description_set_size desc n =
    desc\<lparr>size_units := n, mask_fields := insert PANGO_FONT_MASK_SIZE (mask_fields desc)\<rparr>"

subsection \<open>The shared rendering context and its lock\<close>

text \<open>
  The class structure holds pointers to a mutex and a Pango context that the base class
  owns and every instance shares. The model keeps the two objects in a store of their
  own, together with the history of the operations performed on them, oldest first.
\<close>

datatype event =
  Ev_mutex_lock
  | Ev_mutex_unlock
  | Ev_set_language PangoLanguage
  | Ev_set_base_dir PangoDirection
  | Ev_set_font_description PangoFontDescription

record 'c shared =
  pango_lock :: GMutex
  pango_context :: "'c PangoContext_scheme"
  history :: "event list"

text \<open>
  \<open>g_mutex_lock\<close> on a held mutex does not return (\<open>None\<close>): no other thread is there to
  release it. \<open>g_mutex_unlock\<close> on a mutex that is not held is undefined (\<open>None\<close>).
\<close>

definition g_mutex_lock :: "GMutex \<Rightarrow> GMutex option" where
  "g_mutex_lock m = (case m of Mutex_free \<Rightarrow> Some Mutex_held | Mutex_held \<Rightarrow> None)"

definition g_mutex_unlock :: "GMutex \<Rightarrow> GMutex option" where
  "g_mutex_unlock m = (case m of Mutex_held \<Rightarrow> Some Mutex_free | Mutex_free \<Rightarrow> None)"

definition g_mutex_lock_pango :: "'c shared \<Rightarrow> 'c shared option" where
  "g_mutex_lock_pango sh =
    (case g_mutex_lock (pango_lock sh) of
       None \<Rightarrow> None
     | Some m \<Rightarrow> Some (sh\<lparr>pango_lock := m, history := history sh @ [Ev_mutex_lock]\<rparr>))"

definition g_mutex_unlock_pango :: "'c shared \<Rightarrow> 'c shared option" where
  "g_mutex_unlock_pango sh =
    (case g_mutex_unlock (pango_lock sh) of
       None \<Rightarrow> None
     | Some m \<Rightarrow> Some (sh\<lparr>pango_lock := m, history := history sh @ [Ev_mutex_unlock]\<rparr>))"

definition pango_context_set_language :: "PangoLanguage \<Rightarrow> 'c shared \<Rightarrow> 'c shared" where
  "pango_context_set_language lang sh =
    sh\<lparr>pango_context := (pango_context sh)\<lparr>language := lang\<rparr>,
       history := history sh @ [Ev_set_language lang]\<rparr>"

definition pango_context_set_base_dir :: "PangoDirection \<Rightarrow> 'c shared \<Rightarrow> 'c shared" where
  "pango_context_set_base_dir dir sh =
    sh\<lparr>pango_context := (pango_context sh)\<lparr>base_dir := dir\<rparr>,
       history := history sh @ [Ev_set_base_dir dir]\<rparr>"

text \<open>The context keeps its own copy of the description it is given.\<close>

definition pango_context_set_font_description ::
  "PangoFontDescription \<Rightarrow> 'c shared \<Rightarrow> 'c shared" where
  "pango_context_set_font_description desc sh =
    sh\<lparr>pango_context := (pango_context sh)\<lparr>font_desc := desc\<rparr>,
       history := history sh @ [Ev_set_font_description desc]\<rparr>"

subsection \<open>The class structure\<close>

datatype vfunc =
  Fn_gst_epoch_overlay_finalize
  | Fn_gst_epoch_overlay_set_property
  | Fn_gst_epoch_overlay_get_property
  | Fn_gst_epoch_overlay_get_text
  | Fn_inherited nat

record element_metadata =
  longname :: string
  classification :: string
  description :: string
  author :: string

record GObjectClass =
  finalize :: vfunc
  set_property :: vfunc
  get_property :: vfunc

record GstElementClass = GObjectClass +
  metadata :: element_metadata

record GstBaseTextOverlayClass = GstElementClass +
  get_text :: vfunc

text \<open>\<open>struct _GstEpochOverlayClass { GstBaseTextOverlayClass parent_class; }\<close>\<close>

record 'a GstEpochOverlayClass =
  parent_class :: "'a GstBaseTextOverlayClass_scheme"

definition gst_element_class_set_static_metadata ::
  "'a GstElementClass_scheme \<Rightarrow> string \<Rightarrow> string \<Rightarrow> string \<Rightarrow> string
    \<Rightarrow> 'a GstElementClass_scheme" where
  "gst_element_class_set_static_metadata c ln cl ds au =
    c\<lparr>metadata := \<lparr>longname = ln, classification = cl, description = ds, author = au\<rparr>\<rparr>"

subsection \<open>Class initialisation\<close>

text \<open>
  The three casts of \<open>klass\<close> name the same structure. The font description is a local
  value: once the context has taken its copy, \<open>pango_font_description_free\<close> leaves
  nothing behind.
\<close>

definition gst_epoch_overlay_class_init ::
  "'a GstEpochOverlayClass \<Rightarrow> 'c shared \<Rightarrow> ('a GstEpochOverlayClass \<times> 'c shared) option" where
  "gst_epoch_overlay_class_init klass sh =
    (let c = parent_class klass;
         c = c\<lparr>finalize := Fn_gst_epoch_overlay_finalize\<rparr>;
         c = c\<lparr>set_property := Fn_gst_epoch_overlay_set_property\<rparr>;
         c = c\<lparr>get_property := Fn_gst_epoch_overlay_get_property\<rparr>;
         c = gst_element_class_set_static_metadata c ''Epoch overlay''
               ''Filter/Editor/Video''
               ''Overlays the current time in microseconds from the unix epoch on a video stream''
               (''Tim-Philipp M'' @ [CHR 0xC3, CHR 0xBC]
                 @ ''ller <tim@centricular.net> with modifications from Konstantinos Sofokleous <kostas@epoch.com>'');
         c = c\<lparr>get_text := Fn_gst_epoch_overlay_get_text\<rparr>;
         klass = klass\<lparr>parent_class := c\<rparr>
     in case g_mutex_lock_pango sh of
          None \<Rightarrow> None
        | Some sh \<Rightarrow>
            (let sh = pango_context_set_language (pango_language_from_string ''en_US'') sh;
                 sh = pango_context_set_base_dir PANGO_DIRECTION_LTR sh;
                 font_description = pango_font_description_new;
                 font_description =
                   pango_font_description_set_family_static font_description ''Courier'';
                 font_description =
                   pango_font_description_set_style font_description PANGO_STYLE_NORMAL;
                 font_description =
                   pango_font_description_set_variant font_description PANGO_VARIANT_NORMAL;
                 font_description =
                   pango_font_description_set_weight font_description PANGO_WEIGHT_NORMAL;
                 font_description =
                   pango_font_description_set_stretch font_description PANGO_STRETCH_NORMAL;
                 font_description =
                   pango_font_description_set_size font_description (50 * PANGO_SCALE);
                 sh = pango_context_set_font_description font_description sh
             in case g_mutex_unlock_pango sh of
                  None \<Rightarrow> None
                | Some sh \<Rightarrow> Some (klass, sh)))"

text \<open>
  The class structure with the element's four entry points and its metadata installed:
  what the first part of the initialiser writes.
\<close>

definition initialised_class :: "'a GstEpochOverlayClass \<Rightarrow> 'a GstEpochOverlayClass" where
  "initialised_class klass =
    klass\<lparr>parent_class := (parent_class klass)
      \<lparr>finalize := Fn_gst_epoch_overlay_finalize,
       set_property := Fn_gst_epoch_overlay_set_property,
       get_property := Fn_gst_epoch_overlay_get_property,
       metadata :=
         \<lparr>longname = ''Epoch overlay'',
          classification = ''Filter/Editor/Video'',
          description =
            ''Overlays the current time in microseconds from the unix epoch on a video stream'',
          author = ''Tim-Philipp M'' @ [CHR 0xC3, CHR 0xBC]
            @ ''ller <tim@centricular.net> with modifications from Konstantinos Sofokleous <kostas@epoch.com>''\<rparr>,
       get_text := Fn_gst_epoch_overlay_get_text\<rparr>\<rparr>"

text \<open>
  The specification's record of defaults, and its locking rule read over a history: the
  lock is taken only when free, the context is written only while the lock is held, and
  the lock is free at the end. The flag says whether the lock is held before the first
  event.
\<close>

definition FontDefaults :: PangoFontDescription where
  "FontDefaults =
    \<lparr>family = Some ''Courier'', style = PANGO_STYLE_NORMAL, variant = PANGO_VARIANT_NORMAL,
     weight = PANGO_WEIGHT_NORMAL, stretch = PANGO_STRETCH_NORMAL, size_units = 50 * PANGO_SCALE,
     mask_fields = {PANGO_FONT_MASK_FAMILY, PANGO_FONT_MASK_STYLE, PANGO_FONT_MASK_VARIANT,
       PANGO_FONT_MASK_WEIGHT, PANGO_FONT_MASK_STRETCH, PANGO_FONT_MASK_SIZE}\<rparr>"

fun lock_discipline :: "bool \<Rightarrow> event list \<Rightarrow> bool" where
  "lock_discipline held [] = (\<not> held)"
| "lock_discipline held (Ev_mutex_lock # es) = (\<not> held \<and> lock_discipline True es)"
| "lock_discipline held (Ev_mutex_unlock # es) = (held \<and> lock_discipline False es)"
| "lock_discipline held (e # es) = (held \<and> lock_discipline held es)"

definition events_since :: "event list \<Rightarrow> event list \<Rightarrow> event list" where
  "events_since before after = drop (length before) after"

subsection \<open>Instances\<close>

definition gst_epoch_overlay_finalize :: "('o \<Rightarrow> 'o) \<Rightarrow> 'o \<Rightarrow> 'o" where
  "gst_epoch_overlay_finalize parent_finalize object = parent_finalize object"

definition gst_epoch_overlay_init :: "'a GstEpochOverlay \<Rightarrow> 'a GstEpochOverlay" where
  "gst_epoch_overlay_init overlay =
    (let t = textoverlay overlay;
         t = t\<lparr>valign := VALIGN_TOP\<rparr>;
         t = t\<lparr>halign := HALIGN_LEFT\<rparr>
     in overlay\<lparr>textoverlay := t\<rparr>)"

text \<open>
  \<open>GST_OBJECT_LOCK\<close> and \<open>GST_OBJECT_UNLOCK\<close> take and release the mutex of the instance.
  \<open>G_OBJECT_WARN_INVALID_PROPERTY_ID\<close> logs a warning that names the property and goes on.
\<close>

definition GST_OBJECT_LOCK :: "'a GstEpochOverlay \<Rightarrow> 'a GstEpochOverlay option" where
  "GST_OBJECT_LOCK obj =
    (case g_mutex_lock (lock (textoverlay obj)) of
       None \<Rightarrow> None
     | Some m \<Rightarrow> Some (obj\<lparr>textoverlay := (textoverlay obj)\<lparr>lock := m\<rparr>\<rparr>))"

definition GST_OBJECT_UNLOCK :: "'a GstEpochOverlay \<Rightarrow> 'a GstEpochOverlay option" where
  "GST_OBJECT_UNLOCK obj =
    (case g_mutex_unlock (lock (textoverlay obj)) of
       None \<Rightarrow> None
     | Some m \<Rightarrow> Some (obj\<lparr>textoverlay := (textoverlay obj)\<lparr>lock := m\<rparr>\<rparr>))"

datatype 'p diagnostic = Warn_invalid_property_id "32 word" 'p

definition gst_epoch_overlay_set_property ::
  "'a GstEpochOverlay \<Rightarrow> 32 word \<Rightarrow> 'v \<Rightarrow> 'p
    \<Rightarrow> ('a GstEpochOverlay \<times> 'p diagnostic list) option" where
  "gst_epoch_overlay_set_property object prop_id value pspec =
    (let overlay = object
     in case GST_OBJECT_LOCK overlay of
          None \<Rightarrow> None
        | Some overlay \<Rightarrow>
            (let warnings = [Warn_invalid_property_id prop_id pspec]
             in case GST_OBJECT_UNLOCK overlay of
                  None \<Rightarrow> None
                | Some overlay \<Rightarrow> Some (overlay, warnings)))"

text \<open>The getter never writes the value it is handed; the result carries it back.\<close>

definition gst_epoch_overlay_get_property ::
  "'a GstEpochOverlay \<Rightarrow> 32 word \<Rightarrow> 'v \<Rightarrow> 'p
    \<Rightarrow> ('a GstEpochOverlay \<times> 'v \<times> 'p diagnostic list) option" where
  "gst_epoch_overlay_get_property object prop_id value pspec =
    (let overlay = object
     in case GST_OBJECT_LOCK overlay of
          None \<Rightarrow> None
        | Some overlay \<Rightarrow>
            (let warnings = [Warn_invalid_property_id prop_id pspec]
             in case GST_OBJECT_UNLOCK overlay of
                  None \<Rightarrow> None
                | Some overlay \<Rightarrow> Some (overlay, value, warnings)))"

section \<open>Decimal formatting\<close>

lemma digit_char_cases:
  "d < 10 \<Longrightarrow> d = 0 \<or> d = 1 \<or> d = 2 \<or> d = 3 \<or> d = 4 \<or> d = 5 \<or> d = 6 \<or> d = 7 \<or> d = 8 \<or> d = (9::nat)"
  by arith

lemma is_digit_digit_char: "d < 10 \<Longrightarrow> is_digit (digit_char d)"
  by (drule digit_char_cases) (auto simp: is_digit_def digit_char_def)

lemma digit_val_digit_char: "d < 10 \<Longrightarrow> digit_val (digit_char d) = d"
  by (drule digit_char_cases) (auto simp: digit_val_def digit_char_def)

lemma digit_char_zero: "d < 10 \<Longrightarrow> (digit_char d = CHR ''0'') = (d = 0)"
  by (drule digit_char_cases) (auto simp: digit_char_def)

lemma utoa_nonempty: "utoa n \<noteq> []"
  by (subst utoa.simps) simp

lemma utoa_digits: "list_all is_digit (utoa n)"
proof (induction n rule: utoa.induct)
  case (1 n)
  show ?case
  proof (cases "n < 10")
    case True
    then show ?thesis by (subst utoa.simps) (simp add: is_digit_digit_char)
  next
    case False
    with 1 show ?thesis by (subst utoa.simps) (simp add: is_digit_digit_char)
  qed
qed

lemma atou_snoc: "atou (s @ [c]) = 10 * atou s + digit_val c"
  by (simp add: atou_def)

lemma atou_utoa: "atou (utoa n) = n"
proof (induction n rule: utoa.induct)
  case (1 n)
  show ?case
  proof (cases "n < 10")
    case True
    then show ?thesis
      by (subst utoa.simps) (simp add: atou_def digit_val_digit_char)
  next
    case False
    with 1 have "atou (utoa (n div 10)) = n div 10" by simp
    with False show ?thesis
      by (subst utoa.simps) (simp add: atou_snoc digit_val_digit_char)
  qed
qed

lemma hd_utoa: "(hd (utoa n) = CHR ''0'') = (n = 0)"
proof (induction n rule: utoa.induct)
  case (1 n)
  show ?case
  proof (cases "n < 10")
    case True
    then show ?thesis by (subst utoa.simps) (simp add: digit_char_zero)
  next
    case False
    then have "n div 10 \<noteq> 0" by simp
    with 1 False show ?thesis
      by (subst utoa.simps) (simp add: utoa_nonempty)
  qed
qed

lemma utoa_zero: "(utoa n = ''0'') = (n = 0)"
proof
  assume "utoa n = ''0''"
  then have "hd (utoa n) = CHR ''0''" by simp
  then show "n = 0" by (simp add: hd_utoa)
next
  assume "n = 0"
  then show "utoa n = ''0''" by (subst utoa.simps) (simp add: digit_char_def)
qed

lemma length_utoa: "0 < k \<Longrightarrow> n < 10 ^ k \<Longrightarrow> length (utoa n) \<le> k"
proof (induction n arbitrary: k rule: utoa.induct)
  case (1 n)
  show ?case
  proof (cases "n < 10")
    case True
    with 1 show ?thesis by (subst utoa.simps) simp
  next
    case False
    with 1(2,3) have k: "1 < k" by (cases "k = 1") auto
    then obtain j where j: "k = Suc j" "0 < j" by (cases k) auto
    with 1(3) have "n div 10 < 10 ^ j" by (simp add: less_mult_imp_div_less mult.commute)
    with 1(1) [of j] False j have "length (utoa (n div 10)) \<le> j" by simp
    with False j show ?thesis by (subst utoa.simps) simp
  qed
qed

lemma length_format_PRIu64: "length (format_PRIu64 w) \<le> 20"
proof -
  have "unat w < 2 ^ 64" using unsigned_less [of w] by simp
  also have "(2::nat) ^ 64 < 10 ^ 20" by simp
  finally show ?thesis unfolding format_PRIu64_def by (intro length_utoa) simp_all
qed

section \<open>The text callback\<close>

lemma uint_of_nonneg_sint:
  fixes w :: "64 word"
  assumes "0 \<le> sint w"
  shows "uint w = sint w"
proof -
  have "sint w < 2 ^ 63" using sint_lt [of w] by simp
  also have "(2::int) ^ 63 < 2 ^ 64" by simp
  finally have "take_bit 64 (sint w) = sint w"
    using assms by (simp add: take_bit_int_eq_self)
  then show ?thesis using uint_sint [of w] by simp
qed

lemma unat_micro_exact:
  fixes s u :: "64 word"
  assumes "0 \<le> sint s" "0 \<le> sint u" "sint s * 1000000 + sint u < 2 ^ 64"
  shows "int (unat (s * 1000000 + u)) = sint s * 1000000 + sint u"
proof -
  have s: "uint s = sint s" and u: "uint u = sint u"
    using assms by (simp_all add: uint_of_nonneg_sint)
  have "uint (s * 1000000 + u) = (uint s * 1000000 + uint u) mod 2 ^ 64"
    by (simp add: uint_word_ariths mod_simps)
  also have "\<dots> = (sint s * 1000000 + sint u) mod 2 ^ 64"
    by (simp only: s u)
  also have "\<dots> = sint s * 1000000 + sint u"
    using assms by (intro mod_pos_pos_trivial) simp_all
  finally show ?thesis by (simp only: uint_nat)
qed

text \<open>The formatted text always fits the 256-byte buffer, so the callback always returns.\<close>

lemma get_text_eq:
  "gst_epoch_overlay_get_text (ret, tp) h ov f =
    Some (Suc (length h), ov\<lparr>need_render := True\<rparr>,
      h @ [if ret = 0 then format_PRIu64 (tv_sec tp * 1000000 + tv_usec tp)
           else ''gettimeofday failed''])"
proof -
  have "length (format_PRIu64 (tv_sec tp * 1000000 + tv_usec tp)) < 256"
    using length_format_PRIu64 [of "tv_sec tp * 1000000 + tv_usec tp"] by simp
  then show ?thesis
    by (simp add: gst_epoch_overlay_get_text_def sprintf_def g_strdup_def Let_def)
qed

lemma deref_g_strdup: "deref (h @ [s]) (Suc (length h)) = Some s"
  by (simp add: deref_def allocated_def)

lemma deref_old_block: "allocated h q \<Longrightarrow> deref (h @ [s]) q = deref h q"
  by (auto simp: deref_def allocated_def nth_append)

lemma returned_text_eq:
  "returned_text (gst_epoch_overlay_get_text (ret, tp) h ov f) =
    Some (if ret = 0 then format_PRIu64 (tv_sec tp * 1000000 + tv_usec tp)
          else ''gettimeofday failed'')"
  by (simp only: get_text_eq returned_text_def option.case prod.case deref_g_strdup)

lemma matches_digits_utoa: "matches_digits (utoa n)"
  by (simp add: matches_digits_def utoa_nonempty utoa_digits)

text \<open>
  C1. When the clock read succeeds with seconds \<open>s\<close> and microseconds \<open>u\<close>, the callback
  returns the decimal digits of the unsigned 64-bit value \<open>s * 1000000 + u\<close>: digits only,
  denoting that value, with a leading zero only for the value 0. For a reading with
  non-negative fields whose sum fits 64 bits, the value is the exact sum. Seconds 1 and
  microseconds 500000 give "1500000"; seconds 0 and microseconds 0 give "0".
\<close>

theorem get_text_decimal_of_clock:
  fixes s u :: "64 word"
  shows
    "returned_text (gst_epoch_overlay_get_text (0, \<lparr>tv_sec = s, tv_usec = u\<rparr>) h ov f)
        = Some (utoa (unat (s * 1000000 + u)))
     \<and> matches_digits (utoa (unat (s * 1000000 + u)))
     \<and> atou (utoa (unat (s * 1000000 + u))) = unat (s * 1000000 + u)
     \<and> ((hd (utoa (unat (s * 1000000 + u))) = CHR ''0'') = (utoa (unat (s * 1000000 + u)) = ''0''))
     \<and> ((utoa (unat (s * 1000000 + u)) = ''0'') = (s * 1000000 + u = 0))
     \<and> (0 \<le> sint s \<and> 0 \<le> sint u \<and> sint s * 1000000 + sint u < 2 ^ 64
          \<longrightarrow> int (unat (s * 1000000 + u)) = sint s * 1000000 + sint u)
     \<and> returned_text
          (gst_epoch_overlay_get_text (0, \<lparr>tv_sec = 1, tv_usec = 500000\<rparr>) h ov f)
        = Some ''1500000''
     \<and> returned_text (gst_epoch_overlay_get_text (0, \<lparr>tv_sec = 0, tv_usec = 0\<rparr>) h ov f)
        = Some ''0''"
proof -
  let ?n = "unat (s * 1000000 + u)"
  have a: "returned_text (gst_epoch_overlay_get_text (0, \<lparr>tv_sec = s, tv_usec = u\<rparr>) h ov f)
      = Some (utoa ?n)"
    by (simp add: returned_text_eq format_PRIu64_def)
  have b: "matches_digits (utoa ?n)" by (rule matches_digits_utoa)
  have c: "atou (utoa ?n) = ?n" by (rule atou_utoa)
  have d: "(hd (utoa ?n) = CHR ''0'') = (utoa ?n = ''0'')"
    by (simp only: hd_utoa utoa_zero)
  have e: "(utoa ?n = ''0'') = (s * 1000000 + u = 0)"
    by (simp add: utoa_zero unat_eq_0)
  have f: "0 \<le> sint s \<and> 0 \<le> sint u \<and> sint s * 1000000 + sint u < 2 ^ 64
      \<longrightarrow> int ?n = sint s * 1000000 + sint u"
    using unat_micro_exact [of s u] by blast
  have g: "returned_text
      (gst_epoch_overlay_get_text (0, \<lparr>tv_sec = 1, tv_usec = 500000\<rparr>) h ov f)
      = Some ''1500000''"
    by (simp add: returned_text_eq format_PRIu64_def utoa.simps digit_char_def)
  have i: "returned_text (gst_epoch_overlay_get_text (0, \<lparr>tv_sec = 0, tv_usec = 0\<rparr>) h ov f)
      = Some ''0''"
    by (simp add: returned_text_eq format_PRIu64_def utoa.simps digit_char_def)
  from a b c d e f g i show ?thesis by blast
qed

theorem get_text_decimal_of_clock_witness:
  "0 \<le> sint (1700000000 :: 64 word) \<and> 0 \<le> sint (123456 :: 64 word)
   \<and> sint (1700000000 :: 64 word) * 1000000 + sint (123456 :: 64 word) < 2 ^ 64
   \<and> returned_text
        (gst_epoch_overlay_get_text (0, \<lparr>tv_sec = 1700000000, tv_usec = 123456\<rparr>) []
          \<lparr>lock = Mutex_free, valign = VALIGN_BASELINE, halign = HALIGN_CENTER,
           need_render = False\<rparr> ())
      = Some ''1700000000123456''
   \<and> int (unat (1700000000 * 1000000 + 123456 :: 64 word)) = 1700000000123456"
  using get_text_decimal_of_clock [where s = 1700000000 and u = 123456 and h = "[]"
      and ov = "\<lparr>lock = Mutex_free, valign = VALIGN_BASELINE, halign = HALIGN_CENTER,
        need_render = False\<rparr>" and f = "()"]
  by (simp add: utoa.simps digit_char_def)

text \<open>
  C2. When the clock read fails (a non-zero result), the callback returns normally, with
  a non-null pointer to the text "gettimeofday failed", and leaves the overlay as a
  successful call does: nothing reaches the caller as an error.
\<close>

theorem get_text_clock_failure:
  "ret \<noteq> 0 \<Longrightarrow>
    gst_epoch_overlay_get_text (ret, tp) h ov f
      = Some (Suc (length h), ov\<lparr>need_render := True\<rparr>, h @ [''gettimeofday failed''])
    \<and> returned_text (gst_epoch_overlay_get_text (ret, tp) h ov f)
      = Some ''gettimeofday failed''
    \<and> Suc (length h) \<noteq> 0"
  by (simp add: get_text_eq returned_text_def deref_g_strdup)

theorem get_text_clock_failure_witness:
  "(- 1 :: 32 word) \<noteq> 0
   \<and> returned_text
        (gst_epoch_overlay_get_text (- 1, \<lparr>tv_sec = 7, tv_usec = 9\<rparr>) [''earlier text'']
          \<lparr>lock = Mutex_held, valign = VALIGN_TOP, halign = HALIGN_LEFT,
           need_render = False\<rparr> ())
      = Some ''gettimeofday failed''"
proof -
  have ne: "(- 1 :: 32 word) \<noteq> 0" by simp
  have "returned_text
      (gst_epoch_overlay_get_text (- 1, \<lparr>tv_sec = 7, tv_usec = 9\<rparr>) [''earlier text'']
        \<lparr>lock = Mutex_held, valign = VALIGN_TOP, halign = HALIGN_LEFT,
         need_render = False\<rparr> ())
      = Some ''gettimeofday failed''"
    by (rule get_text_clock_failure [OF ne, THEN conjunct2, THEN conjunct1])
  with ne show ?thesis by simp
qed

text \<open>
  C3. Every call of the callback, whatever the clock answers and whatever the flag was
  before, returns with \<open>need_render\<close> set and every other field of the overlay as it was.
\<close>

theorem get_text_sets_need_render:
  "(case gst_epoch_overlay_get_text clock h ov f of
      None \<Rightarrow> False
    | Some (p, ov', h') \<Rightarrow> need_render ov' \<and> ov' = ov\<lparr>need_render := True\<rparr>)"
  by (cases clock) (simp add: get_text_eq)

theorem get_text_sets_need_render_witness:
  "(case gst_epoch_overlay_get_text (- 1, \<lparr>tv_sec = 0, tv_usec = 0\<rparr>) []
       \<lparr>lock = Mutex_held, valign = VALIGN_POS, halign = HALIGN_RIGHT, need_render = True\<rparr> ()
    of None \<Rightarrow> False
     | Some (p, ov', h') \<Rightarrow>
         ov' = \<lparr>lock = Mutex_held, valign = VALIGN_POS, halign = HALIGN_RIGHT,
                need_render = True\<rparr>)
   \<and> (case gst_epoch_overlay_get_text (0, \<lparr>tv_sec = 5, tv_usec = 6\<rparr>) []
       \<lparr>lock = Mutex_held, valign = VALIGN_POS, halign = HALIGN_RIGHT, need_render = False\<rparr> ()
    of None \<Rightarrow> False
     | Some (p, ov', h') \<Rightarrow>
         ov' = \<lparr>lock = Mutex_held, valign = VALIGN_POS, halign = HALIGN_RIGHT,
                need_render = True\<rparr>)"
  using
    get_text_sets_need_render [where clock = "(- 1, \<lparr>tv_sec = 0, tv_usec = 0\<rparr>)"
      and h = "[]" and f = "()" and ov = "\<lparr>lock = Mutex_held, valign = VALIGN_POS,
        halign = HALIGN_RIGHT, need_render = True\<rparr>"]
    get_text_sets_need_render [where clock = "(0, \<lparr>tv_sec = 5, tv_usec = 6\<rparr>)"
      and h = "[]" and f = "()" and ov = "\<lparr>lock = Mutex_held, valign = VALIGN_POS,
        halign = HALIGN_RIGHT, need_render = False\<rparr>"]
  by (simp split: option.splits prod.splits)

text \<open>
  C4. For every clock answer, heap, overlay and frame, the callback returns a pointer that
  is not \<open>NULL\<close>, to a block that did not exist before the call and exists after it, with
  every earlier block unchanged; the text in the block is either a decimal numeral of an
  unsigned 64-bit value (digits only, in the form the formatter writes) or the text
  "gettimeofday failed".
\<close>

theorem get_text_returns_fresh_wellformed_string:
  "(case gst_epoch_overlay_get_text clock h ov f of
      None \<Rightarrow> False
    | Some (p, ov', h') \<Rightarrow>
        p \<noteq> 0 \<and> \<not> allocated h p \<and> allocated h' p
        \<and> (\<forall>q. allocated h q \<longrightarrow> deref h' q = deref h q)
        \<and> (case deref h' p of
              None \<Rightarrow> False
            | Some s \<Rightarrow>
                (matches_digits s \<and> atou s < 2 ^ 64 \<and> utoa (atou s) = s)
                \<or> s = ''gettimeofday failed''))"
proof (cases clock)
  case (Pair ret tp)
  let ?w = "tv_sec tp * 1000000 + tv_usec tp"
  have bound: "unat ?w < 2 ^ 64" using unsigned_less [of ?w] by simp
  have fresh: "\<not> allocated h (Suc (length h))" "allocated (h @ [s]) (Suc (length h))" for s
    by (simp_all add: allocated_def)
  have old: "\<forall>q. allocated h q \<longrightarrow> deref (h @ [s]) q = deref h q" for s
    by (simp add: deref_old_block)
  show ?thesis
  proof (cases "ret = 0")
    case True
    have "matches_digits (format_PRIu64 ?w) \<and> atou (format_PRIu64 ?w) < 2 ^ 64
        \<and> utoa (atou (format_PRIu64 ?w)) = format_PRIu64 ?w"
      using bound by (simp add: format_PRIu64_def matches_digits_utoa atou_utoa)
    with True Pair fresh old show ?thesis
      by (simp add: get_text_eq deref_g_strdup)
  next
    case False
    with Pair fresh old show ?thesis
      by (simp add: get_text_eq deref_g_strdup)
  qed
qed

theorem get_text_returns_fresh_wellformed_string_witness:
  "allocated [''earlier text''] 1
   \<and> gst_epoch_overlay_get_text (0, \<lparr>tv_sec = 1, tv_usec = 500000\<rparr>) [''earlier text'']
        \<lparr>lock = Mutex_held, valign = VALIGN_TOP, halign = HALIGN_LEFT, need_render = False\<rparr> ()
      = Some (2, \<lparr>lock = Mutex_held, valign = VALIGN_TOP, halign = HALIGN_LEFT,
                 need_render = True\<rparr>, [''earlier text'', ''1500000''])
   \<and> \<not> allocated [''earlier text''] 2
   \<and> deref [''earlier text'', ''1500000''] 1 = deref [''earlier text''] 1
   \<and> deref [''earlier text'', ''1500000''] 2 = Some ''1500000''
   \<and> matches_digits ''1500000'' \<and> atou ''1500000'' = 1500000"
  using get_text_returns_fresh_wellformed_string
    [where clock = "(0, \<lparr>tv_sec = 1, tv_usec = 500000\<rparr>)" and h = "[''earlier text'']"
      and ov = "\<lparr>lock = Mutex_held, valign = VALIGN_TOP, halign = HALIGN_LEFT,
        need_render = False\<rparr>" and f = "()"]
  by (simp add: get_text_eq format_PRIu64_def utoa.simps digit_char_def allocated_def
      deref_def matches_digits_def is_digit_def atou_def digit_val_def)

text \<open>
  C10. The returned text is a function of the clock answer alone: two calls with the same
  clock answer return equal texts, whatever the two frames, the two overlay states and the
  two heaps (whatever earlier calls left behind) are; and a text is always returned.
\<close>

theorem get_text_depends_on_clock_only:
  "returned_text (gst_epoch_overlay_get_text clock h1 ov1 f1)
     = returned_text (gst_epoch_overlay_get_text clock h2 ov2 f2)
   \<and> returned_text (gst_epoch_overlay_get_text clock h1 ov1 f1) \<noteq> None"
  by (cases clock) (simp add: returned_text_eq)

theorem get_text_depends_on_clock_only_witness:
  "returned_text
      (gst_epoch_overlay_get_text (0, \<lparr>tv_sec = 12, tv_usec = 34\<rparr>) []
        \<lparr>lock = Mutex_held, valign = VALIGN_TOP, halign = HALIGN_LEFT, need_render = False\<rparr>
        (1 :: nat))
    = returned_text
      (gst_epoch_overlay_get_text (0, \<lparr>tv_sec = 12, tv_usec = 34\<rparr>) [''12000033'', ''x'']
        \<lparr>lock = Mutex_free, valign = VALIGN_CENTER, halign = HALIGN_POS, need_render = True\<rparr>
        ''another frame'')
   \<and> returned_text
      (gst_epoch_overlay_get_text (0, \<lparr>tv_sec = 12, tv_usec = 34\<rparr>) []
        \<lparr>lock = Mutex_held, valign = VALIGN_TOP, halign = HALIGN_LEFT, need_render = False\<rparr>
        (1 :: nat))
    = Some ''12000034''"
  using get_text_depends_on_clock_only
    [where clock = "(0, \<lparr>tv_sec = 12, tv_usec = 34\<rparr>)" and ?h1.0 = "[]"
      and ?ov1.0 = "\<lparr>lock = Mutex_held, valign = VALIGN_TOP, halign = HALIGN_LEFT,
        need_render = False\<rparr>"
      and ?f1.0 = "1 :: nat" and ?h2.0 = "[''12000033'', ''x'']"
      and ?ov2.0 = "\<lparr>lock = Mutex_free, valign = VALIGN_CENTER, halign = HALIGN_POS,
        need_render = True\<rparr>"
      and ?f2.0 = "''another frame''"]
  by (simp add: returned_text_eq format_PRIu64_def utoa.simps digit_char_def)

section \<open>Class initialisation\<close>

lemma font_description_built:
  "pango_font_description_set_size
     (pango_font_description_set_stretch
       (pango_font_description_set_weight
         (pango_font_description_set_variant
           (pango_font_description_set_style
             (pango_font_description_set_family_static pango_font_description_new ''Courier'')
             PANGO_STYLE_NORMAL)
           PANGO_VARIANT_NORMAL)
         PANGO_WEIGHT_NORMAL)
       PANGO_STRETCH_NORMAL)
     (50 * PANGO_SCALE) = FontDefaults"
  by (auto simp: FontDefaults_def pango_font_description_new_def
      pango_font_description_set_family_static_def pango_font_description_set_style_def
      pango_font_description_set_variant_def pango_font_description_set_weight_def
      pango_font_description_set_stretch_def pango_font_description_set_size_def)

lemma class_init_free:
  assumes "pango_lock sh = Mutex_free"
  shows "gst_epoch_overlay_class_init klass sh =
    Some (initialised_class klass,
      sh\<lparr>pango_lock := Mutex_free,
         pango_context := (pango_context sh)
           \<lparr>language := Language_tag ''en_US'', base_dir := PANGO_DIRECTION_LTR,
            font_desc := FontDefaults\<rparr>,
         history := history sh @
           [Ev_mutex_lock, Ev_set_language (Language_tag ''en_US''),
            Ev_set_base_dir PANGO_DIRECTION_LTR, Ev_set_font_description FontDefaults,
            Ev_mutex_unlock]\<rparr>)"
  using assms
  by (simp add: gst_epoch_overlay_class_init_def Let_def font_description_built
      g_mutex_lock_pango_def g_mutex_unlock_pango_def g_mutex_lock_def g_mutex_unlock_def
      pango_context_set_language_def pango_context_set_base_dir_def
      pango_context_set_font_description_def pango_language_from_string_def
      gst_element_class_set_static_metadata_def initialised_class_def)

lemma class_init_held:
  "pango_lock sh = Mutex_held \<Longrightarrow> gst_epoch_overlay_class_init klass sh = None"
  by (simp add: gst_epoch_overlay_class_init_def Let_def g_mutex_lock_pango_def
      g_mutex_lock_def)

lemma initialised_class_idem: "initialised_class (initialised_class klass) = initialised_class klass"
  by (simp add: initialised_class_def)

text \<open>
  C5. Entered with the lock free, class initialisation leaves the shared context with
  language "en_US", base direction left-to-right and a font description with family
  "Courier", style, variant, weight and stretch normal and size 50 times \<open>PANGO_SCALE\<close>,
  every other part of the context as it was; and one run performs each of the three
  context settings exactly once, between one acquisition and one release of the lock.
\<close>

theorem class_init_font_defaults:
  "pango_lock sh = Mutex_free \<Longrightarrow>
    (case gst_epoch_overlay_class_init klass sh of
       None \<Rightarrow> False
     | Some (klass', sh') \<Rightarrow>
         pango_context sh' = (pango_context sh)
           \<lparr>language := pango_language_from_string ''en_US'',
            base_dir := PANGO_DIRECTION_LTR,
            font_desc :=
              \<lparr>family = Some ''Courier'', style = PANGO_STYLE_NORMAL,
               variant = PANGO_VARIANT_NORMAL, weight = PANGO_WEIGHT_NORMAL,
               stretch = PANGO_STRETCH_NORMAL, size_units = 50 * PANGO_SCALE,
               mask_fields = {PANGO_FONT_MASK_FAMILY, PANGO_FONT_MASK_STYLE,
                 PANGO_FONT_MASK_VARIANT, PANGO_FONT_MASK_WEIGHT, PANGO_FONT_MASK_STRETCH,
                 PANGO_FONT_MASK_SIZE}\<rparr>\<rparr>
         \<and> font_desc (pango_context sh') = FontDefaults
         \<and> size_units (font_desc (pango_context sh')) = 51200
         \<and> events_since (history sh) (history sh') =
             [Ev_mutex_lock, Ev_set_language (pango_language_from_string ''en_US''),
              Ev_set_base_dir PANGO_DIRECTION_LTR, Ev_set_font_description FontDefaults,
              Ev_mutex_unlock])"
  by (simp add: class_init_free events_since_def pango_language_from_string_def)
    (simp add: FontDefaults_def PANGO_SCALE_def)

theorem class_init_font_defaults_witness:
  "pango_lock
      \<lparr>pango_lock = Mutex_free,
       pango_context = \<lparr>language = Language_tag ''C'', base_dir = PANGO_DIRECTION_WEAK_LTR,
         font_desc = pango_font_description_new\<rparr>,
       history = []\<rparr> = Mutex_free
   \<and> map_option (pango_context \<circ> snd)
        (gst_epoch_overlay_class_init
          \<lparr>parent_class = \<lparr>finalize = Fn_inherited 1, set_property = Fn_inherited 2,
             get_property = Fn_inherited 3,
             metadata = \<lparr>longname = [], classification = [], description = [], author = []\<rparr>,
             get_text = Fn_inherited 4\<rparr>\<rparr>
          \<lparr>pango_lock = Mutex_free,
           pango_context = \<lparr>language = Language_tag ''C'', base_dir = PANGO_DIRECTION_WEAK_LTR,
             font_desc = pango_font_description_new\<rparr>,
           history = []\<rparr>)
      = Some \<lparr>language = Language_tag ''en_US'', base_dir = PANGO_DIRECTION_LTR,
          font_desc = FontDefaults\<rparr>"
  using class_init_font_defaults
    [where sh = "\<lparr>pango_lock = Mutex_free,
        pango_context = \<lparr>language = Language_tag ''C'', base_dir = PANGO_DIRECTION_WEAK_LTR,
          font_desc = pango_font_description_new\<rparr>,
        history = []\<rparr>"
      and klass = "\<lparr>parent_class = \<lparr>finalize = Fn_inherited 1, set_property = Fn_inherited 2,
          get_property = Fn_inherited 3,
          metadata = \<lparr>longname = [], classification = [], description = [], author = []\<rparr>,
          get_text = Fn_inherited 4\<rparr>\<rparr>"]
  by (simp add: class_init_free)

text \<open>
  C6. Class initialisation either finds the lock held and waits at the acquisition, before
  any change to the shared context, or runs to its end: then the lock was free at entry,
  the operations it performed on the shared objects are the acquisition, the three context
  settings and the release, in this order (so every setting happens while the lock is
  held), and the lock is free when the function returns.
\<close>

theorem class_init_lock_discipline:
  "(case gst_epoch_overlay_class_init klass sh of
      None \<Rightarrow> pango_lock sh = Mutex_held
    | Some (klass', sh') \<Rightarrow>
        pango_lock sh = Mutex_free
        \<and> pango_lock sh' = Mutex_free
        \<and> take (length (history sh)) (history sh') = history sh
        \<and> lock_discipline False (events_since (history sh) (history sh'))
        \<and> events_since (history sh) (history sh') =
            [Ev_mutex_lock, Ev_set_language (pango_language_from_string ''en_US''),
             Ev_set_base_dir PANGO_DIRECTION_LTR, Ev_set_font_description FontDefaults,
             Ev_mutex_unlock])"
proof (cases "pango_lock sh")
  case Mutex_free
  then show ?thesis
    by (simp add: class_init_free events_since_def pango_language_from_string_def)
next
  case Mutex_held
  then show ?thesis by (simp add: class_init_held)
qed

theorem class_init_lock_discipline_witness:
  "map_option (\<lambda>r. (pango_lock (snd r), history (snd r)))
      (gst_epoch_overlay_class_init
        \<lparr>parent_class = \<lparr>finalize = Fn_inherited 1, set_property = Fn_inherited 2,
           get_property = Fn_inherited 3,
           metadata = \<lparr>longname = [], classification = [], description = [], author = []\<rparr>,
           get_text = Fn_inherited 4\<rparr>\<rparr>
        \<lparr>pango_lock = Mutex_free,
         pango_context = \<lparr>language = Language_tag ''C'', base_dir = PANGO_DIRECTION_WEAK_LTR,
           font_desc = pango_font_description_new\<rparr>,
         history = []\<rparr>)
    = Some (Mutex_free,
        [Ev_mutex_lock, Ev_set_language (Language_tag ''en_US''),
         Ev_set_base_dir PANGO_DIRECTION_LTR, Ev_set_font_description FontDefaults,
         Ev_mutex_unlock])
   \<and> lock_discipline False
        [Ev_mutex_lock, Ev_set_language (Language_tag ''en_US''),
         Ev_set_base_dir PANGO_DIRECTION_LTR, Ev_set_font_description FontDefaults,
         Ev_mutex_unlock]
   \<and> \<not> lock_discipline False
        [Ev_set_language (Language_tag ''en_US''), Ev_mutex_lock, Ev_mutex_unlock]
   \<and> \<not> lock_discipline False [Ev_mutex_lock, Ev_set_base_dir PANGO_DIRECTION_LTR]"
  using class_init_lock_discipline
    [where sh = "\<lparr>pango_lock = Mutex_free,
        pango_context = \<lparr>language = Language_tag ''C'', base_dir = PANGO_DIRECTION_WEAK_LTR,
          font_desc = pango_font_description_new\<rparr>,
        history = []\<rparr>"
      and klass = "\<lparr>parent_class = \<lparr>finalize = Fn_inherited 1, set_property = Fn_inherited 2,
          get_property = Fn_inherited 3,
          metadata = \<lparr>longname = [], classification = [], description = [], author = []\<rparr>,
          get_text = Fn_inherited 4\<rparr>\<rparr>"]
  by (simp add: class_init_free)

text \<open>
  C9. Running class initialisation twice, the second run on what the first one left, does
  not fail, and leaves the class structure, the shared context and the lock as the first
  run left them.
\<close>

theorem class_init_idempotent:
  "pango_lock sh = Mutex_free \<Longrightarrow>
    (case gst_epoch_overlay_class_init klass sh of
       None \<Rightarrow> False
     | Some (klass1, sh1) \<Rightarrow>
         (case gst_epoch_overlay_class_init klass1 sh1 of
            None \<Rightarrow> False
          | Some (klass2, sh2) \<Rightarrow>
              klass2 = klass1 \<and> pango_context sh2 = pango_context sh1
              \<and> pango_lock sh2 = pango_lock sh1))"
  by (simp add: class_init_free initialised_class_idem)

theorem class_init_idempotent_witness:
  "pango_lock
      \<lparr>pango_lock = Mutex_free,
       pango_context = \<lparr>language = Language_tag ''C'', base_dir = PANGO_DIRECTION_WEAK_LTR,
         font_desc = pango_font_description_new\<rparr>,
       history = []\<rparr> = Mutex_free
   \<and> (case gst_epoch_overlay_class_init
          \<lparr>parent_class = \<lparr>finalize = Fn_inherited 1, set_property = Fn_inherited 2,
             get_property = Fn_inherited 3,
             metadata = \<lparr>longname = [], classification = [], description = [], author = []\<rparr>,
             get_text = Fn_inherited 4\<rparr>\<rparr>
          \<lparr>pango_lock = Mutex_free,
           pango_context = \<lparr>language = Language_tag ''C'', base_dir = PANGO_DIRECTION_WEAK_LTR,
             font_desc = pango_font_description_new\<rparr>,
           history = []\<rparr>
       of None \<Rightarrow> False
        | Some (klass1, sh1) \<Rightarrow>
            map_option (\<lambda>r. (fst r, pango_context (snd r), pango_lock (snd r)))
              (gst_epoch_overlay_class_init klass1 sh1)
            = Some (klass1, pango_context sh1, pango_lock sh1))"
  using class_init_idempotent
    [where sh = "\<lparr>pango_lock = Mutex_free,
        pango_context = \<lparr>language = Language_tag ''C'', base_dir = PANGO_DIRECTION_WEAK_LTR,
          font_desc = pango_font_description_new\<rparr>,
        history = []\<rparr>"
      and klass = "\<lparr>parent_class = \<lparr>finalize = Fn_inherited 1, set_property = Fn_inherited 2,
          get_property = Fn_inherited 3,
          metadata = \<lparr>longname = [], classification = [], description = [], author = []\<rparr>,
          get_text = Fn_inherited 4\<rparr>\<rparr>"]
  by (simp add: class_init_free initialised_class_idem)

section \<open>Instances and properties\<close>

lemma object_lock_unlock:
  "lock (textoverlay obj) = Mutex_free \<Longrightarrow>
    GST_OBJECT_LOCK obj = Some (obj\<lparr>textoverlay := (textoverlay obj)\<lparr>lock := Mutex_held\<rparr>\<rparr>)
    \<and> GST_OBJECT_UNLOCK (obj\<lparr>textoverlay := (textoverlay obj)\<lparr>lock := Mutex_held\<rparr>\<rparr>) = Some obj"
  by (simp add: GST_OBJECT_LOCK_def GST_OBJECT_UNLOCK_def g_mutex_lock_def g_mutex_unlock_def)

lemma property_handlers_wait_on_held_lock:
  "lock (textoverlay obj) = Mutex_held \<Longrightarrow>
    gst_epoch_overlay_set_property obj prop_id v pspec = None
    \<and> gst_epoch_overlay_get_property obj prop_id v' pspec = None"
  by (simp add: gst_epoch_overlay_set_property_def gst_epoch_overlay_get_property_def
      GST_OBJECT_LOCK_def g_mutex_lock_def Let_def)

text \<open>
  C7. The instance initialiser sets the vertical alignment to top and the horizontal
  alignment to left, and leaves every other field of the instance as it was.
\<close>

theorem init_sets_alignment_only:
  "gst_epoch_overlay_init overlay =
      overlay\<lparr>textoverlay := (textoverlay overlay)\<lparr>valign := VALIGN_TOP, halign := HALIGN_LEFT\<rparr>\<rparr>
   \<and> valign (textoverlay (gst_epoch_overlay_init overlay)) = VALIGN_TOP
   \<and> halign (textoverlay (gst_epoch_overlay_init overlay)) = HALIGN_LEFT
   \<and> need_render (textoverlay (gst_epoch_overlay_init overlay)) = need_render (textoverlay overlay)
   \<and> lock (textoverlay (gst_epoch_overlay_init overlay)) = lock (textoverlay overlay)
   \<and> GstBaseTextOverlay.more (textoverlay (gst_epoch_overlay_init overlay))
       = GstBaseTextOverlay.more (textoverlay overlay)
   \<and> GstEpochOverlay.more (gst_epoch_overlay_init overlay) = GstEpochOverlay.more overlay"
  by (simp add: gst_epoch_overlay_init_def Let_def)

theorem init_sets_alignment_only_witness:
  "gst_epoch_overlay_init
      \<lparr>textoverlay = \<lparr>lock = Mutex_free, valign = VALIGN_BASELINE, halign = HALIGN_CENTER,
         need_render = False\<rparr>\<rparr>
    = \<lparr>textoverlay = \<lparr>lock = Mutex_free, valign = VALIGN_TOP, halign = HALIGN_LEFT,
         need_render = False\<rparr>\<rparr>"
  using init_sets_alignment_only
    [where overlay = "\<lparr>textoverlay = \<lparr>lock = Mutex_free, valign = VALIGN_BASELINE,
        halign = HALIGN_CENTER, need_render = False\<rparr>\<rparr>"]
  by simp

text \<open>
  C8. Called on an instance whose lock is free, the property setter and the property
  getter return normally for every property identifier, log exactly one invalid-property
  warning naming that identifier, and leave the instance (and, for the getter, the value
  handed in) unchanged.
\<close>

theorem property_handlers_warn_and_keep_state:
  "lock (textoverlay obj) = Mutex_free \<Longrightarrow>
    gst_epoch_overlay_set_property obj prop_id v pspec
      = Some (obj, [Warn_invalid_property_id prop_id pspec])
    \<and> gst_epoch_overlay_get_property obj prop_id v' pspec
      = Some (obj, v', [Warn_invalid_property_id prop_id pspec])"
  by (simp add: gst_epoch_overlay_set_property_def gst_epoch_overlay_get_property_def
      object_lock_unlock Let_def)

theorem property_handlers_warn_and_keep_state_witness:
  "lock (textoverlay
      \<lparr>textoverlay = \<lparr>lock = Mutex_free, valign = VALIGN_TOP, halign = HALIGN_LEFT,
         need_render = False\<rparr>\<rparr>) = Mutex_free
   \<and> gst_epoch_overlay_set_property
        \<lparr>textoverlay = \<lparr>lock = Mutex_free, valign = VALIGN_TOP, halign = HALIGN_LEFT,
           need_render = False\<rparr>\<rparr> 7 ''new value'' ''pspec''
      = Some (\<lparr>textoverlay = \<lparr>lock = Mutex_free, valign = VALIGN_TOP, halign = HALIGN_LEFT,
           need_render = False\<rparr>\<rparr>, [Warn_invalid_property_id 7 ''pspec''])
   \<and> gst_epoch_overlay_get_property
        \<lparr>textoverlay = \<lparr>lock = Mutex_free, valign = VALIGN_TOP, halign = HALIGN_LEFT,
           need_render = False\<rparr>\<rparr> 0 ''out value'' ''pspec''
      = Some (\<lparr>textoverlay = \<lparr>lock = Mutex_free, valign = VALIGN_TOP, halign = HALIGN_LEFT,
           need_render = False\<rparr>\<rparr>, ''out value'', [Warn_invalid_property_id 0 ''pspec''])"
  using
    property_handlers_warn_and_keep_state
      [where obj = "\<lparr>textoverlay = \<lparr>lock = Mutex_free, valign = VALIGN_TOP,
          halign = HALIGN_LEFT, need_render = False\<rparr>\<rparr>"
        and prop_id = 7 and v = "''new value''" and pspec = "''pspec''"
        and v' = "''out value''"]
    property_handlers_warn_and_keep_state
      [where obj = "\<lparr>textoverlay = \<lparr>lock = Mutex_free, valign = VALIGN_TOP,
          halign = HALIGN_LEFT, need_render = False\<rparr>\<rparr>"
        and prop_id = 0 and v = "''new value''" and pspec = "''pspec''"
        and v' = "''out value''"]
  by simp

end
